theory Spec2Isabelle
  imports Complex_Main
begin

section \<open>JavaScript values read by \<open>src/App.jsx\<close>\<close>

text \<open>
  The value that \<open>res.json()\<close> resolves with is a parsed JSON value. \<open>undefined\<close>
  is not a JSON value; a JavaScript expression that may be \<open>undefined\<close> has type
  \<open>json option\<close>, with \<open>None\<close> for \<open>undefined\<close>. A number is held with the text
  that \<open>String\<close> gives for it (\<open>Number.prototype.toString\<close>), which no function on
  \<open>real\<close> computes: \<open>JNum 1 ''1''\<close> is the number 1.
\<close>

datatype json =
    JNull
  | JBool bool
  | JNum real string
  | JStr string
  | JArr "json list"
  | JObj "(string \<times> json) list"

datatype js_error = TypeError

text \<open>
  Property read \<open>v.k\<close>, for the property names the component reads (\<open>items\<close>,
  \<open>id\<close>, \<open>name\<close>, \<open>address\<close>, \<open>latitude\<close>, \<open>longitude\<close>, \<open>open_hours\<close>,
  \<open>has_cold\<close>, \<open>has_hot\<close>, \<open>access_type\<close>, \<open>is_new\<close>): none of them is on a
  prototype, so a boolean, number, string or array has them \<open>undefined\<close>; reading a
  property of \<open>null\<close> throws a TypeError. Of a repeated member name in an object the
  last one counts, as in \<open>JSON.parse\<close>.
\<close>

fun field :: "json \<Rightarrow> string \<Rightarrow> json option" where
  "field (JObj kvs) k = map_of (rev kvs) k"
| "field v k = None"

fun js_get :: "json \<Rightarrow> string \<Rightarrow> js_error + json option" where
  "js_get JNull k = Inl TypeError"
| "js_get v k = Inr (field v k)"

text \<open>JavaScript truthiness (\<open>ToBoolean\<close>).\<close>

fun truthy :: "json option \<Rightarrow> bool" where
  "truthy None = False"
| "truthy (Some JNull) = False"
| "truthy (Some (JBool b)) = b"
| "truthy (Some (JNum n t)) = (n \<noteq> 0)"
| "truthy (Some (JStr s)) = (s \<noteq> [])"
| "truthy (Some (JArr xs)) = True"
| "truthy (Some (JObj kvs)) = True"

text \<open>
  String conversion, \<open>'' + v\<close>. An array is its elements joined by commas, with
  \<open>null\<close> as the empty text. An object from \<open>JSON.parse\<close> is \<open>[object Object]\<close>,
  unless it has a member \<open>toString\<close> of its own: that member is no function, and
  \<open>valueOf\<close> gives no primitive, so the conversion throws a TypeError.
\<close>

fun js_string :: "json \<Rightarrow> js_error + string"
  and js_join :: "json list \<Rightarrow> js_error + string" where
  "js_string JNull = Inr ''null''"
| "js_string (JBool b) = Inr (if b then ''true'' else ''false'')"
| "js_string (JNum n t) = Inr t"
| "js_string (JStr s) = Inr s"
| "js_string (JArr xs) = js_join xs"
| "js_string (JObj kvs) =
     (if ''toString'' \<in> fst ` set kvs then Inl TypeError else Inr ''[object Object]'')"
| "js_join [] = Inr []"
| "js_join (x # xs) =
     (case (if x = JNull then Inr [] else js_string x) of
        Inl e \<Rightarrow> Inl e
      | Inr a \<Rightarrow>
          (if xs = [] then Inr a
           else (case js_join xs of Inl e \<Rightarrow> Inl e | Inr b \<Rightarrow> Inr (a @ '','' @ b))))"

text \<open>
  The key that React keeps for an element made with \<open>key={v}\<close>: none when \<open>v\<close> is
  \<open>undefined\<close>, and the string \<open>'' + v\<close> otherwise.
\<close>

fun React_key :: "json option \<Rightarrow> js_error + string option" where
  "React_key None = Inr None"
| "React_key (Some v) = (case js_string v of Inl e \<Rightarrow> Inl e | Inr t \<Rightarrow> Inr (Some t))"

section \<open>\<open>URLSearchParams\<close>\<close>

text \<open>
  An ordered list of name-value pairs. \<open>set\<close> overwrites the first pair of that name
  and removes the others, or appends the pair when the name is new.
\<close>

type_synonym URLSearchParams = "(string \<times> string) list"

fun params_set :: "string \<Rightarrow> string \<Rightarrow> URLSearchParams \<Rightarrow> URLSearchParams" where
  "params_set n v [] = [(n, v)]"
| "params_set n v ((k, x) # ps) =
     (if k = n then (n, v) # filter (\<lambda>kv. fst kv \<noteq> n) ps
      else (k, x) # params_set n v ps)"

section \<open>The state of \<open>MapPage\<close>\<close>

text \<open>
  The eight \<open>useState\<close> cells of \<open>MapPage\<close>, and two parts of its environment: the
  view of the Leaflet map (centre and zoom), which \<open>map.setView\<close> writes, and the
  list of the point queries sent so far, each by its query parameters.
\<close>

record page =
  partners :: json
  loading :: bool
  error :: string
  center :: "real \<times> real"
  category :: string
  hasHot :: bool
  hasCold :: bool
  query :: string
  view :: "(real \<times> real) \<times> nat"
  requests :: "URLSearchParams list"

definition categories :: "(string \<times> string) list" where
  "categories =
     [(''all'', ''All''), (''shop'', ''Shops''), (''cafe'', ''Cafes''),
      (''university'', ''Universities''), (''sports'', ''Sports'')]"

text \<open>The initial values of the state cells; \<open>MapContainer\<close> opens at zoom 12.\<close>

definition init :: page where
  "init =
     \<lparr>partners = JArr [], loading = True, error = [],
      center = (57.15303, 65.53433), category = ''all'',
      hasHot = False, hasCold = True, query = [],
      view = ((57.15303, 65.53433), 12), requests = []\<rparr>"

section \<open>\<open>loadPartners\<close>\<close>

text \<open>Lines 80 to 84: the query parameters, from the state the call closes over.\<close>

definition loadPartners_params :: "page \<Rightarrow> URLSearchParams" where
  "loadPartners_params s =
     (let params = [];
          params = (if category s \<noteq> ''all''
                    then params_set ''category'' (category s) params else params);
          params = (if hasHot s then params_set ''has_hot'' ''true'' params else params);
          params = (if hasCold s then params_set ''has_cold'' ''true'' params else params);
          params = (if query s \<noteq> [] then params_set ''q'' (query s) params else params)
      in params)"

text \<open>
  The call up to its first \<open>await\<close>: \<open>setLoading(true)\<close>, \<open>setError('')\<close>, and the
  request is sent.
\<close>

definition loadPartners_begin :: "page \<Rightarrow> page" where
  "loadPartners_begin s =
     s\<lparr>loading := True, error := [], requests := requests s @ [loadPartners_params s]\<rparr>"

text \<open>
  What the request comes back with: \<open>fetch\<close> rejects, or it resolves with a response
  of some HTTP status whose \<open>json()\<close> rejects (\<open>None\<close>) or resolves with a value.
\<close>

datatype response = NetworkFailure | Response nat "json option"

text \<open>Line 87, \<open>data.items || []\<close>.\<close>

definition items_or_empty :: "json \<Rightarrow> js_error + json" where
  "items_or_empty data =
     (case js_get data ''items'' of
        Inl e \<Rightarrow> Inl e
      | Inr None \<Rightarrow> Inr (JArr [])
      | Inr (Some v) \<Rightarrow> Inr (if truthy (Some v) then v else JArr []))"

text \<open>
  The rest of the call, when the request has come back: the \<open>try\<close> block from line
  85, \<open>catch\<close>, \<open>finally\<close>. Nothing relates the response to the request it answers.
\<close>

definition loadPartners_settle :: "response \<Rightarrow> page \<Rightarrow> page" where
  "loadPartners_settle r s =
     (let s' =
        (case r of
           NetworkFailure \<Rightarrow> s\<lparr>error := ''Failed to load points''\<rparr>
         | Response status None \<Rightarrow> s\<lparr>error := ''Failed to load points''\<rparr>
         | Response status (Some data) \<Rightarrow>
             (case items_or_empty data of
                Inl e \<Rightarrow> s\<lparr>error := ''Failed to load points''\<rparr>
              | Inr v \<Rightarrow> s\<lparr>partners := v\<rparr>))
      in s'\<lparr>loading := False\<rparr>)"

text \<open>Line 143: the inline message, rendered when \<open>error\<close> is a non-empty string.\<close>

definition error_banner :: "page \<Rightarrow> string option" where
  "error_banner s = (if error s \<noteq> [] then Some (error s) else None)"

text \<open>The responses on which the \<open>try\<close> block throws, so that the \<open>catch\<close> runs.\<close>

definition query_fails :: "response \<Rightarrow> bool" where
  "query_fails r =
     (case r of
        NetworkFailure \<Rightarrow> True
      | Response status None \<Rightarrow> True
      | Response status (Some data) \<Rightarrow>
          (case items_or_empty data of Inl e \<Rightarrow> True | Inr v \<Rightarrow> False))"

section \<open>Effects and event handlers\<close>

text \<open>
  \<open>Recenter\<close>, lines 55 to 61: its effect runs when \<open>center\<close> is a new array, and
  an array is truthy, so it sets the view of the map to \<open>center\<close> at zoom 13.
\<close>

definition Recenter :: "page \<Rightarrow> page" where
  "Recenter s = s\<lparr>view := (center s, 13)\<rparr>"

text \<open>
  What the browser answers to \<open>onLocate\<close>: \<open>navigator.geolocation\<close> is missing, or
  \<open>getCurrentPosition\<close> fails (it is given no error callback), or it calls the
  success callback with a position.
\<close>

datatype geolocation = NoGeolocation | PositionError | Position real real

definition onLocate :: "geolocation \<Rightarrow> page \<Rightarrow> page" where
  "onLocate g s =
     (case g of
        NoGeolocation \<Rightarrow> s
      | PositionError \<Rightarrow> s
      | Position lat lon \<Rightarrow> Recenter (s\<lparr>center := (lat, lon)\<rparr>))"

text \<open>
  Lines 95 to 97: after a render, the effect calls the \<open>loadPartners\<close> of that render
  when one of \<open>category\<close>, \<open>hasHot\<close>, \<open>hasCold\<close> differs from the render before.
\<close>

definition deps :: "page \<Rightarrow> string \<times> bool \<times> bool" where
  "deps s = (category s, hasHot s, hasCold s)"

definition partners_effect :: "page \<Rightarrow> page \<Rightarrow> page" where
  "partners_effect prev s = (if deps s \<noteq> deps prev then loadPartners_begin s else s)"

text \<open>The first render runs both effects.\<close>

definition mount :: page where
  "mount = loadPartners_begin (Recenter init)"

text \<open>
  What can happen to the mounted page: the controls of lines 127 to 142, a request
  that comes back (\<open>Settled i r\<close>: the request \<open>requests ! i\<close>, with \<open>r\<close>), and the
  user dragging or zooming the map.
\<close>

datatype event =
    SetQuery string
  | Search
  | SetCategory string
  | SetHasCold bool
  | SetHasHot bool
  | Locate geolocation
  | Settled nat response
  | MapMoved "(real \<times> real) \<times> nat"

fun step :: "event \<Rightarrow> page \<Rightarrow> page" where
  "step (SetQuery t) s = partners_effect s (s\<lparr>query := t\<rparr>)"
| "step Search s = loadPartners_begin s"
| "step (SetCategory k) s = partners_effect s (s\<lparr>category := k\<rparr>)"
| "step (SetHasCold b) s = partners_effect s (s\<lparr>hasCold := b\<rparr>)"
| "step (SetHasHot b) s = partners_effect s (s\<lparr>hasHot := b\<rparr>)"
| "step (Locate g) s = onLocate g s"
| "step (Settled i r) s = loadPartners_settle r s"
| "step (MapMoved v) s = s\<lparr>view := v\<rparr>"

definition run :: "event list \<Rightarrow> page \<Rightarrow> page" where
  "run es s = fold step es s"

section \<open>\<open>markers\<close>\<close>

text \<open>
  The children of the popup, in the order of lines 110 to 115. \<open>v && e\<close> is the
  element \<open>e\<close> when \<open>v\<close> is truthy and the value \<open>v\<close> itself otherwise (\<open>Raw\<close>).
  \<open>Water\<close> and \<open>Access\<close> hold the text of their line; \<open>Directions\<close> holds the
  latitude and longitude that the link appends to its fixed address.
\<close>

datatype child =
    Raw "json option"
  | NewBadge
  | Title "json option" child
  | Address "json option"
  | Hours "json option"
  | Water string
  | Access string
  | Directions "json option" "json option"

record marker =
  key :: "string option"
  position :: "json option \<times> json option"
  popup :: "child list"

definition water_text :: "json \<Rightarrow> string" where
  "water_text p =
     ''Water: '' @ (if truthy (field p ''has_cold'') then ''cold'' else []) @ '' '' @
     (if truthy (field p ''has_hot'') then ''/ hot'' else [])"

definition popup_of :: "json \<Rightarrow> child list" where
  "popup_of p =
     [Title (field p ''name'')
        (if truthy (field p ''is_new'') then NewBadge else Raw (field p ''is_new'')),
      Address (field p ''address''),
      (if truthy (field p ''open_hours'') then Hours (field p ''open_hours'')
       else Raw (field p ''open_hours'')),
      Water (water_text p),
      Access (if field p ''access_type'' = Some (JStr ''free'') then ''free'' else ''ask staff''),
      Directions (field p ''latitude'') (field p ''longitude'')]"

text \<open>
  One \<open>Marker\<close> element, lines 107 to 118, with the key \<open>k\<close> that React keeps for
  it. Reading \<open>p.id\<close> of \<open>null\<close> throws, and so does an \<open>id\<close> that has no string.
\<close>

definition descriptor :: "string option \<Rightarrow> json \<Rightarrow> marker" where
  "descriptor k p =
     \<lparr>key = k,
      position = (field p ''latitude'', field p ''longitude''),
      popup = popup_of p\<rparr>"

definition marker_of :: "json \<Rightarrow> js_error + marker" where
  "marker_of p =
     (if p = JNull then Inl TypeError
      else (case React_key (field p ''id'') of
              Inl e \<Rightarrow> Inl e
            | Inr k \<Rightarrow> Inr (descriptor k p)))"

fun marker_list :: "json list \<Rightarrow> js_error + marker list" where
  "marker_list [] = Inr []"
| "marker_list (p # ps) =
     (case marker_of p of
        Inl e \<Rightarrow> Inl e
      | Inr m \<Rightarrow> (case marker_list ps of Inl e \<Rightarrow> Inl e | Inr ms \<Rightarrow> Inr (m # ms)))"

text \<open>Line 106, \<open>partners.map(...)\<close>: only an array has \<open>map\<close>.\<close>

fun markers :: "json \<Rightarrow> js_error + marker list" where
  "markers (JArr ps) = marker_list ps"
| "markers v = Inl TypeError"

fun is_water :: "child \<Rightarrow> bool" where
  "is_water (Water t) = True"
| "is_water c = False"

definition water_lines :: "marker \<Rightarrow> child list" where
  "water_lines m = filter is_water (popup m)"

text \<open>\<open>useMemo\<close> with the dependency \<open>partners\<close>: the markers of a render.\<close>

definition MapPage_markers :: "page \<Rightarrow> js_error + marker list" where
  "MapPage_markers s = markers (partners s)"

section \<open>Query parameters\<close>

lemma params_shape:
  "loadPartners_params s =
     (if category s \<noteq> ''all'' then [(''category'', category s)] else []) @
     (if hasHot s then [(''has_hot'', ''true'')] else []) @
     (if hasCold s then [(''has_cold'', ''true'')] else []) @
     (if query s \<noteq> [] then [(''q'', query s)] else [])"
  by (simp add: loadPartners_params_def)

text \<open>
  C2, as stated, fails: with the initial state of the page (category \<open>all\<close>, cold
  required, hot not required, no text) the parameters are not empty, they hold
  \<open>has_cold=true\<close>.
\<close>

theorem params_defaults_counterexample:
  "category init = ''all'' \<and> hasCold init \<and> \<not> hasHot init \<and> query init = [] \<and>
   loadPartners_params init = [(''has_cold'', ''true'')]"
  by (simp add: loadPartners_params_def init_def)

text \<open>
  C2, amended: for the default criteria (category \<open>all\<close>, cold required, hot not
  required, empty text) the query parameters are exactly \<open>has_cold=true\<close>.
\<close>

theorem params_defaults:
  "category s = ''all'' \<Longrightarrow> hasCold s \<Longrightarrow> \<not> hasHot s \<Longrightarrow> query s = [] \<Longrightarrow>
   loadPartners_params s = [(''has_cold'', ''true'')]"
  by (simp add: params_shape)

theorem params_defaults_witness:
  "category (Recenter init) = ''all'' \<and> hasCold (Recenter init) \<and>
   \<not> hasHot (Recenter init) \<and> query (Recenter init) = [] \<and>
   requests mount = [[(''has_cold'', ''true'')]]"
  using params_defaults [of "Recenter init"]
  by (simp add: init_def mount_def loadPartners_begin_def Recenter_def)

text \<open>
  C3: for every state of the filter controls, \<open>category=<value>\<close> is among the query
  parameters exactly when the category is not \<open>all\<close>, \<open>has_hot=true\<close> exactly when
  hot is required, \<open>has_cold=true\<close> exactly when cold is required, \<open>q=<text>\<close>
  exactly when the text is not empty; there is no other parameter and no name twice.
\<close>

theorem params_omit_defaults:
  "((''category'', v) \<in> set (loadPartners_params s) \<longleftrightarrow>
      category s \<noteq> ''all'' \<and> v = category s) \<and>
   ((''has_hot'', v) \<in> set (loadPartners_params s) \<longleftrightarrow> hasHot s \<and> v = ''true'') \<and>
   ((''has_cold'', v) \<in> set (loadPartners_params s) \<longleftrightarrow> hasCold s \<and> v = ''true'') \<and>
   ((''q'', v) \<in> set (loadPartners_params s) \<longleftrightarrow> query s \<noteq> [] \<and> v = query s) \<and>
   fst ` set (loadPartners_params s) \<subseteq> {''category'', ''has_hot'', ''has_cold'', ''q''} \<and>
   distinct (map fst (loadPartners_params s))"
  unfolding params_shape by auto

theorem params_omit_defaults_witness:
  "(''category'', ''cafe'') \<in>
     set (loadPartners_params (init\<lparr>category := ''cafe'', query := ''tea''\<rparr>)) \<and>
   (''has_hot'', ''true'') \<notin>
     set (loadPartners_params (init\<lparr>category := ''cafe'', query := ''tea''\<rparr>)) \<and>
   (''has_cold'', ''true'') \<in>
     set (loadPartners_params (init\<lparr>category := ''cafe'', query := ''tea''\<rparr>)) \<and>
   (''q'', ''tea'') \<in>
     set (loadPartners_params (init\<lparr>category := ''cafe'', query := ''tea''\<rparr>))"
  using params_omit_defaults [of "''cafe''" "init\<lparr>category := ''cafe'', query := ''tea''\<rparr>"]
        params_omit_defaults [of "''true''" "init\<lparr>category := ''cafe'', query := ''tea''\<rparr>"]
        params_omit_defaults [of "''tea''" "init\<lparr>category := ''cafe'', query := ''tea''\<rparr>"]
  by (simp add: init_def)

text \<open>
  C4, as stated, fails: choosing the category \<open>shop\<close> and ticking Hot on the freshly
  mounted page leaves Cold ticked, and the parameters then hold \<open>has_cold=true\<close> too.
\<close>

theorem params_shop_hot_counterexample:
  "category (run [SetCategory ''shop'', SetHasHot True] mount) = ''shop'' \<and>
   hasHot (run [SetCategory ''shop'', SetHasHot True] mount) \<and>
   loadPartners_params (run [SetCategory ''shop'', SetHasHot True] mount) =
     [(''category'', ''shop''), (''has_hot'', ''true''), (''has_cold'', ''true'')]"
  by (simp add: run_def mount_def init_def Recenter_def loadPartners_begin_def
        partners_effect_def deps_def loadPartners_params_def)

text \<open>
  C4, amended: with category \<open>shop\<close> and hot required, the parameters are
  \<open>category=shop\<close> and \<open>has_hot=true\<close>, followed by \<open>has_cold=true\<close> exactly when
  cold is required and by \<open>q=<text>\<close> exactly when the text is not empty; so they are
  exactly \<open>category=shop\<close> and \<open>has_hot=true\<close> when cold is not required and the
  text is empty.
\<close>

theorem params_shop_hot:
  "category s = ''shop'' \<Longrightarrow> hasHot s \<Longrightarrow>
   loadPartners_params s =
     [(''category'', ''shop''), (''has_hot'', ''true'')] @
     (if hasCold s then [(''has_cold'', ''true'')] else []) @
     (if query s \<noteq> [] then [(''q'', query s)] else [])"
  by (simp add: params_shape)

theorem params_shop_hot_witness:
  "loadPartners_params (init\<lparr>category := ''shop'', hasHot := True, hasCold := False\<rparr>) =
     [(''category'', ''shop''), (''has_hot'', ''true'')]"
  using params_shop_hot [of "init\<lparr>category := ''shop'', hasHot := True, hasCold := False\<rparr>"]
  by (simp add: init_def)

section \<open>Markers\<close>




text \<open>
  C6, as stated, fails: for a point whose \<open>has_cold\<close> and \<open>has_hot\<close> are both false
  the popup still has its water line, with the text \<open>Water:\<close> and two spaces.
\<close>

theorem water_line_counterexample:
  "water_lines (descriptor (Some ''p1'')
      (JObj [(''id'', JStr ''p1''), (''has_cold'', JBool False),
             (''has_hot'', JBool False)])) = [Water ''Water:  ''] \<and>
   markers (JArr [JObj [(''id'', JStr ''p1''), (''has_cold'', JBool False),
                        (''has_hot'', JBool False)]]) =
     Inr [\<lparr>key = Some ''p1'', position = (None, None),
           popup = [Title None (Raw None), Address None, Raw None, Water ''Water:  '',
                    Access ''ask staff'', Directions None None]\<rparr>]"
  by (simp add: water_lines_def descriptor_def popup_of_def water_text_def marker_of_def)

text \<open>
  C6, amended: the popup of every point has exactly one water line; for a point
  whose \<open>has_cold\<close> and \<open>has_hot\<close> are both false the line is there with both parts
  empty, its text being \<open>Water:\<close> followed by two spaces.
\<close>

theorem water_line_always:
  "water_lines (descriptor k p) = [Water (water_text p)] \<and>
   (field p ''has_cold'' = Some (JBool False) \<and> field p ''has_hot'' = Some (JBool False)
      \<longrightarrow> water_text p = ''Water:  '')"
  by (simp add: water_lines_def descriptor_def popup_of_def water_text_def)

theorem water_line_always_witness:
  "water_lines (descriptor None
      (JObj [(''has_cold'', JBool False), (''has_hot'', JBool False)])) =
     [Water ''Water:  '']"
  using water_line_always
    [of None "JObj [(''has_cold'', JBool False), (''has_hot'', JBool False)]"]
  by simp



section \<open>Responses\<close>

text \<open>
  C5: when a point query fails, the inline message \<open>Failed to load points\<close> is
  shown and the points, and so the markers, are those of before. A query fails by a
  transport failure, by a body that does not decode, or by the body \<open>null\<close>, of
  which \<open>data.items\<close> cannot be read; these are all the ways into the \<open>catch\<close>.
\<close>

theorem failed_query_keeps_partners:
  "(query_fails r \<longleftrightarrow>
      r = NetworkFailure \<or> (\<exists>status. r = Response status None) \<or>
      (\<exists>status. r = Response status (Some JNull))) \<and>
   (query_fails r \<longrightarrow>
      partners (step (Settled i r) s) = partners s \<and>
      MapPage_markers (step (Settled i r) s) = MapPage_markers s \<and>
      error_banner (step (Settled i r) s) = Some ''Failed to load points'')"
proof (intro conjI impI)
  show "query_fails r \<longleftrightarrow>
      r = NetworkFailure \<or> (\<exists>status. r = Response status None) \<or>
      (\<exists>status. r = Response status (Some JNull))"
  proof (cases r)
    case NetworkFailure
    then show ?thesis by (simp add: query_fails_def)
  next
    case (Response status body)
    show ?thesis
    proof (cases body)
      case None
      with Response show ?thesis by (simp add: query_fails_def)
    next
      case (Some data)
      with Response show ?thesis
        by (cases data) (simp_all add: query_fails_def items_or_empty_def split: option.splits)
    qed
  qed
next
  assume "query_fails r"
  then show "partners (step (Settled i r) s) = partners s"
    by (auto simp: query_fails_def loadPartners_settle_def
          split: response.splits option.splits sum.splits)
next
  assume "query_fails r"
  then show "MapPage_markers (step (Settled i r) s) = MapPage_markers s"
    by (auto simp: query_fails_def loadPartners_settle_def MapPage_markers_def
          split: response.splits option.splits sum.splits)
next
  assume "query_fails r"
  then show "error_banner (step (Settled i r) s) = Some ''Failed to load points''"
    by (auto simp: query_fails_def loadPartners_settle_def error_banner_def
          split: response.splits option.splits sum.splits)
qed

theorem failed_query_keeps_partners_witness:
  "partners (step (Settled 1 (Response 200 None))
      (step Search
         (step (Settled 0 (Response 200 (Some (JObj [(''items'', JArr [JStr ''x''])]))))
            mount)))
     = JArr [JStr ''x''] \<and>
   error_banner (step (Settled 1 (Response 200 None))
      (step Search
         (step (Settled 0 (Response 200 (Some (JObj [(''items'', JArr [JStr ''x''])]))))
            mount)))
     = Some ''Failed to load points'' \<and>
   partners (step (Settled 1 (Response 200 (Some JNull)))
      (step Search
         (step (Settled 0 (Response 200 (Some (JObj [(''items'', JArr [JStr ''x''])]))))
            mount)))
     = JArr [JStr ''x''] \<and>
   error_banner (step (Settled 1 (Response 200 (Some JNull)))
      (step Search
         (step (Settled 0 (Response 200 (Some (JObj [(''items'', JArr [JStr ''x''])]))))
            mount)))
     = Some ''Failed to load points''"
  using failed_query_keeps_partners [where r = "Response 200 None" and i = 1
      and s = "step Search
         (step (Settled 0 (Response 200 (Some (JObj [(''items'', JArr [JStr ''x''])]))))
            mount)"]
    failed_query_keeps_partners [where r = "Response 200 (Some JNull)" and i = 1
      and s = "step Search
         (step (Settled 0 (Response 200 (Some (JObj [(''items'', JArr [JStr ''x''])]))))
            mount)"]
  by (simp add: loadPartners_settle_def items_or_empty_def loadPartners_begin_def)

text \<open>
  C10, as stated, fails: the body \<open>null\<close> parses as JSON, and reading \<open>data.items\<close>
  of it throws, which the \<open>catch\<close> reports as a query error.
\<close>

theorem json_body_counterexample:
  "error_banner (step (Settled 0 (Response 200 (Some JNull))) mount) =
     Some ''Failed to load points''"
  by (simp add: loadPartners_settle_def items_or_empty_def error_banner_def)

text \<open>
  C10, amended: a response whose body parses as a JSON value other than \<open>null\<close> is
  handled as a success, whatever its HTTP status. It sets no error message: the
  message is as it was before the response, so none is shown when no other query
  has failed since \<open>loadPartners\<close> sent this one. The points are replaced by
  \<open>items\<close> when it is a list, by the empty list when \<open>items\<close> is absent or falsy,
  and by \<open>items\<close> as it is when it is truthy and no list, and then rendering the
  markers throws.
\<close>

theorem json_body_is_success:
  assumes "data \<noteq> JNull"
  shows "error (step (Settled i (Response status (Some data))) s) = error s \<and>
         error_banner (step (Settled i (Response status (Some data))) s) = error_banner s \<and>
         error_banner (step (Settled i (Response status (Some data))) (loadPartners_begin s))
           = None \<and>
         (field data ''items'' = Some (JArr xs) \<longrightarrow>
            partners (step (Settled i (Response status (Some data))) s) = JArr xs) \<and>
         (\<not> truthy (field data ''items'') \<longrightarrow>
            partners (step (Settled i (Response status (Some data))) s) = JArr []) \<and>
         (truthy (field data ''items'') \<longrightarrow>
            Some (partners (step (Settled i (Response status (Some data))) s))
              = field data ''items'') \<and>
         (truthy (field data ''items'') \<and> (\<forall>ys. field data ''items'' \<noteq> Some (JArr ys)) \<longrightarrow>
            MapPage_markers (step (Settled i (Response status (Some data))) s)
              = Inl TypeError)"
proof -
  let ?v = "case field data ''items'' of
              None \<Rightarrow> JArr [] | Some v \<Rightarrow> if truthy (Some v) then v else JArr []"
  from assms have items: "items_or_empty data = Inr ?v"
    by (cases data) (simp_all add: items_or_empty_def split: option.splits)
  then have settle:
    "step (Settled i (Response status (Some data))) t = t\<lparr>partners := ?v, loading := False\<rparr>"
    for t
    by (simp add: loadPartners_settle_def)
  have "markers v = Inl TypeError" if "\<forall>ys. v \<noteq> JArr ys" for v
    using that by (cases v) simp_all
  then show ?thesis
    unfolding settle
    by (auto simp: error_banner_def loadPartners_begin_def MapPage_markers_def
          split: option.splits)
qed

theorem json_body_is_success_witness:
  "error_banner (step (Settled 0 (Response 500 (Some (JObj [(''items'', JArr [JStr ''x''])]))))
      (loadPartners_begin init)) = None \<and>
   partners (step (Settled 0 (Response 500 (Some (JObj [(''items'', JArr [JStr ''x''])]))))
      (loadPartners_begin init)) = JArr [JStr ''x''] \<and>
   error_banner (step (Settled 0 (Response 500 (Some (JObj [(''items'', JArr [JStr ''x''])]))))
      (step (Settled 1 NetworkFailure) (step Search (loadPartners_begin init))))
     = Some ''Failed to load points''"
  using json_body_is_success [where data = "JObj [(''items'', JArr [JStr ''x''])]"
      and xs = "[JStr ''x'']" and i = 0 and status = 500 and s = "loadPartners_begin init"]
    json_body_is_success [where data = "JObj [(''items'', JArr [JStr ''x''])]"
      and xs = "[JStr ''x'']" and i = 0 and status = 500
      and s = "step (Settled 1 NetworkFailure) (step Search (loadPartners_begin init))"]
  by (simp add: loadPartners_begin_def loadPartners_settle_def error_banner_def)

lemma settle_success:
  "items_or_empty data = Inr v \<Longrightarrow>
   partners (loadPartners_settle (Response status (Some data)) s) = v"
  by (simp add: loadPartners_settle_def)

text \<open>
  C1, as stated, fails: the mounted page has sent query 0 (A); choosing the category
  \<open>shop\<close> sends query 1 (B) before A has come back; B's response arrives, then A's,
  and the points shown are A's.
\<close>

theorem superseded_response_counterexample:
  "requests (run [SetCategory ''shop''] mount) =
     [[(''has_cold'', ''true'')], [(''category'', ''shop''), (''has_cold'', ''true'')]] \<and>
   partners (run [SetCategory ''shop'',
                  Settled 1 (Response 200 (Some (JObj [(''items'', JArr [JStr ''B''])]))),
                  Settled 0 (Response 200 (Some (JObj [(''items'', JArr [JStr ''A''])])))] mount)
     = JArr [JStr ''A'']"
  by (simp add: run_def mount_def init_def Recenter_def loadPartners_begin_def
        partners_effect_def deps_def loadPartners_params_def loadPartners_settle_def
        items_or_empty_def)

text \<open>
  C1, amended: when query A is sent and then query B before A has come back, and
  both responses are successful, the points shown after both have arrived are those
  of the response that arrived last: B's when A's response arrives first, A's when
  B's response arrives first.
\<close>

theorem last_arrived_wins:
  assumes a: "items_or_empty a = Inr x" and b: "items_or_empty b = Inr y"
  shows "partners (run [Search, Search, Settled i (Response sa (Some a)),
                        Settled j (Response sb (Some b))] s) = y \<and>
         partners (run [Search, Search, Settled j (Response sb (Some b)),
                        Settled i (Response sa (Some a))] s) = x"
proof -
  let ?s = "step Search (step Search s)"
  have "partners (step (Settled j (Response sb (Some b)))
                    (step (Settled i (Response sa (Some a))) ?s)) = y"
    using b by (simp add: settle_success)
  moreover
  have "partners (step (Settled i (Response sa (Some a)))
                    (step (Settled j (Response sb (Some b))) ?s)) = x"
    using a by (simp add: settle_success)
  ultimately show ?thesis
    by (simp add: run_def)
qed

theorem last_arrived_wins_witness:
  "partners (run [Search, Search,
                  Settled 1 (Response 200 (Some (JObj [(''items'', JArr [JStr ''A''])]))),
                  Settled 2 (Response 200 (Some (JObj [(''items'', JArr [JStr ''B''])])))] mount)
     = JArr [JStr ''B'']"
  using last_arrived_wins [where a = "JObj [(''items'', JArr [JStr ''A''])]"
      and x = "JArr [JStr ''A'']" and b = "JObj [(''items'', JArr [JStr ''B''])]"
      and y = "JArr [JStr ''B'']" and i = 1 and sa = 200 and j = 2 and sb = 200 and s = mount]
  by (simp add: items_or_empty_def)

section \<open>Which events send a query\<close>

lemma typing_sends_nothing: "requests (run (map SetQuery ts) s) = requests s"
  by (induction ts arbitrary: s) (simp_all add: run_def partners_effect_def deps_def)

lemma sending_events:
  "e = Search \<or> (\<exists>k. e = SetCategory k \<and> k \<noteq> category s) \<or>
   (\<exists>b. e = SetHasCold b \<and> b \<noteq> hasCold s) \<or> (\<exists>b. e = SetHasHot b \<and> b \<noteq> hasHot s)"
  if "requests (step e s) \<noteq> requests s"
proof (cases e)
  case (Locate g)
  then show ?thesis
    using that by (cases g) (simp_all add: onLocate_def Recenter_def)
next
  case (Settled i r)
  then show ?thesis
    using that
    by (simp add: loadPartners_settle_def split: response.splits option.splits sum.splits)
qed (use that in \<open>auto simp: partners_effect_def deps_def split: if_splits\<close>)

text \<open>
  C8, as stated, fails: with the text \<open>tea\<close> typed and Search never pressed,
  ticking Hot sends a query that carries \<open>q=tea\<close>.
\<close>

theorem text_sent_without_search_counterexample:
  "requests (run [SetQuery ''tea'', SetHasHot True] mount) =
     [[(''has_cold'', ''true'')],
      [(''has_hot'', ''true''), (''has_cold'', ''true''), (''q'', ''tea'')]]"
  by (simp add: run_def mount_def init_def Recenter_def loadPartners_begin_def
        partners_effect_def deps_def loadPartners_params_def)

text \<open>
  C8, amended: a change of the category or of either checkbox sends a query at once,
  with the new criteria and the text as it is then; changes of the text, however
  many, send nothing by themselves; the text typed is sent by the next query, which
  the Search button sends, or a later change of the category or of a checkbox. No
  other event sends a query.
\<close>

theorem requery_policy:
  "(k \<noteq> category s \<longrightarrow>
      requests (step (SetCategory k) s) =
        requests s @ [loadPartners_params (s\<lparr>category := k\<rparr>)]) \<and>
   (b \<noteq> hasCold s \<longrightarrow>
      requests (step (SetHasCold b) s) =
        requests s @ [loadPartners_params (s\<lparr>hasCold := b\<rparr>)]) \<and>
   (b \<noteq> hasHot s \<longrightarrow>
      requests (step (SetHasHot b) s) =
        requests s @ [loadPartners_params (s\<lparr>hasHot := b\<rparr>)]) \<and>
   requests (run (map SetQuery ts) s) = requests s \<and>
   requests (run [SetQuery t, Search] s) =
     requests s @ [loadPartners_params (s\<lparr>query := t\<rparr>)] \<and>
   (k \<noteq> category s \<longrightarrow>
      requests (run [SetQuery t, SetCategory k] s) =
        requests s @ [loadPartners_params (s\<lparr>query := t, category := k\<rparr>)]) \<and>
   (b \<noteq> hasCold s \<longrightarrow>
      requests (run [SetQuery t, SetHasCold b] s) =
        requests s @ [loadPartners_params (s\<lparr>query := t, hasCold := b\<rparr>)]) \<and>
   (b \<noteq> hasHot s \<longrightarrow>
      requests (run [SetQuery t, SetHasHot b] s) =
        requests s @ [loadPartners_params (s\<lparr>query := t, hasHot := b\<rparr>)]) \<and>
   (query s \<noteq> [] \<longrightarrow> (''q'', query s) \<in> set (loadPartners_params s)) \<and>
   (requests (step e s) \<noteq> requests s \<longrightarrow>
      e = Search \<or> (\<exists>c. e = SetCategory c \<and> c \<noteq> category s) \<or>
      (\<exists>c. e = SetHasCold c \<and> c \<noteq> hasCold s) \<or> (\<exists>c. e = SetHasHot c \<and> c \<noteq> hasHot s))"
  using sending_events [of e s]
  by (simp add: typing_sends_nothing)
     (simp add: run_def loadPartners_begin_def partners_effect_def deps_def params_shape)

theorem requery_policy_witness:
  "requests (run (map SetQuery [''t'', ''te'', ''tea'']) mount) = requests mount \<and>
   requests (run [SetQuery ''tea'', Search] mount) =
     requests mount @ [[(''has_cold'', ''true''), (''q'', ''tea'')]] \<and>
   requests (run [SetQuery ''tea'', SetCategory ''cafe''] mount) =
     requests mount @ [[(''category'', ''cafe''), (''has_cold'', ''true''), (''q'', ''tea'')]] \<and>
   requests (step (SetCategory ''cafe'') mount) =
     requests mount @ [[(''category'', ''cafe''), (''has_cold'', ''true'')]] \<and>
   requests (step (SetHasCold False) mount) = requests mount @ [[]] \<and>
   requests (step (SetHasHot True) mount) =
     requests mount @ [[(''has_hot'', ''true''), (''has_cold'', ''true'')]]"
  using requery_policy [where ts = "[''t'', ''te'', ''tea'']" and s = mount and t = "''tea''"
          and k = "''cafe''" and b = False and e = Search]
        requery_policy [where ts = "[]" and s = mount and t = "[]" and k = "''cafe''"
          and b = True and e = Search]
  by (simp add: mount_def init_def Recenter_def loadPartners_begin_def loadPartners_params_def)

section \<open>Geolocation\<close>

text \<open>
  C9: a geolocation request that succeeds sets the centre to the coordinates it
  returns and the view of the map to them at zoom 13, wherever the map was; one that
  fails, or finds no geolocation, leaves the whole state as it was, the view and the
  error message with it.
\<close>

theorem locate_recenters:
  "view (step (Locate (Position lat lon)) s) = ((lat, lon), 13) \<and>
   center (step (Locate (Position lat lon)) s) = (lat, lon) \<and>
   step (Locate PositionError) s = s \<and>
   step (Locate NoGeolocation) s = s"
  by (simp add: onLocate_def Recenter_def)

theorem locate_recenters_witness:
  "view (run [MapMoved ((57.2, 65.6), 9), Locate (Position 57.1 65.5)] mount) =
     ((57.1, 65.5), 13) \<and>
   view (run [MapMoved ((57.2, 65.6), 9), Locate PositionError] mount) = ((57.2, 65.6), 9) \<and>
   error_banner (run [MapMoved ((57.2, 65.6), 9), Locate NoGeolocation] mount) = None"
  using locate_recenters [where lat = "57.1" and lon = "65.5"
      and s = "step (MapMoved ((57.2, 65.6), 9)) mount"]
  by (simp add: run_def mount_def loadPartners_begin_def error_banner_def)

end
